theory Spec2Isabelle
  imports Main "HOL-Library.Product_Lexorder"
begin

section \<open>Values, exceptions and the text of an integer\<close>

text \<open>
  A Python \<open>datetime\<close> is read through its components. The model classes are SQLModel
  table classes: their constructor does not validate, so an attribute holds whatever value
  was given, or \<open>None\<close> when it was not given. \<open>pyval\<close> is such a value.
\<close>

record datetime =
  year :: int
  month :: nat
  day :: nat
  hour :: nat
  minute :: nat
  second :: nat

datatype pyval = PyNone | PyInt int | PyStr string | PyDatetime datetime

text \<open>
  Exceptions: the three of \<open>core/exceptions.py\<close> that the services and routes use,
  FastAPI's \<open>HTTPException\<close>, Python's \<open>KeyError\<close>, \<open>ValueError\<close> and
  \<open>AttributeError\<close>, and the errors of the store, of the session and of the parser.
\<close>

datatype exn =
    IntegrityError string
  | DataError string
  | OperationalError string
  | ParserError string
  | KeyError string
  | ValueError string
  | AttributeError string
  | UnmappedInstanceError string
  | ResourceNotFoundError string
  | DatabaseOperationError string
  | HTTPException int string

fun str_exn :: "exn \<Rightarrow> string" where
  "str_exn (IntegrityError m) = m"
| "str_exn (DataError m) = m"
| "str_exn (OperationalError m) = m"
| "str_exn (ParserError m) = m"
| "str_exn (KeyError k) = [CHR 0x27] @ k @ [CHR 0x27]"
| "str_exn (ValueError m) = m"
| "str_exn (AttributeError m) = m"
| "str_exn (UnmappedInstanceError m) = m"
| "str_exn (ResourceNotFoundError m) = m"
| "str_exn (DatabaseOperationError m) = m"
| "str_exn (HTTPException c d) = d"

definition digit_char :: "nat \<Rightarrow> char" where
  "digit_char d = ''0123456789'' ! d"

function str_nat :: "nat \<Rightarrow> string" where
  "str_nat n = (if n < 10 then [digit_char n] else str_nat (n div 10) @ [digit_char (n mod 10)])"
  by pat_completeness auto
termination
  by (relation "measure (\<lambda>n. n)") auto

declare str_nat.simps [simp del]

text \<open>Python's \<open>str\<close> on an \<open>int\<close>.\<close>

definition str_int :: "int \<Rightarrow> string" where
  "str_int i = (if i < 0 then CHR ''-'' # str_nat (nat (- i)) else str_nat (nat i))"

section \<open>The models and the store\<close>

text \<open>
  The model classes of \<open>models/\<close>. Field \<open>id\<close> of class \<open>Job\<close> is \<open>j_id\<close> here, field
  \<open>job\<close> is \<open>j_job\<close>, and so on with \<open>d_\<close> for \<open>Department\<close> and \<open>e_\<close> for
  \<open>Employee\<close>.
\<close>

record Department =
  d_id :: pyval
  d_department :: pyval

record Job =
  j_id :: pyval
  j_job :: pyval

record Employee =
  e_id :: pyval
  e_name :: pyval
  e_hire_datetime :: pyval
  e_department_id :: pyval
  e_job_id :: pyval

text \<open>
  The rows of the three tables, typed by the columns the models declare: an integer
  primary key, text, a timestamp, and for \<open>employees\<close> two integer columns that are
  foreign keys into \<open>departments.id\<close> and \<open>jobs.id\<close>. No field has \<open>Optional\<close> type, so
  every column is NOT NULL. An integer primary key that is not given is drawn from the
  table's sequence, whose last value the store keeps (and keeps when a write fails).
\<close>

record department_row =
  dr_id :: int
  dr_department :: string

record job_row =
  jr_id :: int
  jr_job :: string

record employee_row =
  er_id :: int
  er_name :: string
  er_hire_datetime :: datetime
  er_department_id :: int
  er_job_id :: int

record store =
  departments :: "department_row list"
  jobs :: "job_row list"
  employees :: "employee_row list"
  departments_id_seq :: int
  jobs_id_seq :: int
  employees_id_seq :: int

text \<open>What a column accepts: a value of its type; \<open>None\<close> violates NOT NULL.\<close>

fun integer_col :: "string \<Rightarrow> pyval \<Rightarrow> exn + int" where
  "integer_col c (PyInt i) = Inr i"
| "integer_col c PyNone = Inl (IntegrityError (''null value in column '' @ c))"
| "integer_col c v = Inl (DataError (''invalid input for integer column '' @ c))"

fun varchar_col :: "string \<Rightarrow> pyval \<Rightarrow> exn + string" where
  "varchar_col c (PyStr t) = Inr t"
| "varchar_col c PyNone = Inl (IntegrityError (''null value in column '' @ c))"
| "varchar_col c v = Inl (DataError (''invalid input for text column '' @ c))"

fun timestamp_col :: "string \<Rightarrow> pyval \<Rightarrow> exn + datetime" where
  "timestamp_col c (PyDatetime t) = Inr t"
| "timestamp_col c PyNone = Inl (IntegrityError (''null value in column '' @ c))"
| "timestamp_col c v = Inl (DataError (''invalid input for timestamp column '' @ c))"

text \<open>The object that \<open>session.refresh\<close> and \<open>session.get\<close> load from a row.\<close>

definition Department_of_row :: "department_row \<Rightarrow> Department" where
  "Department_of_row r = \<lparr>d_id = PyInt (dr_id r), d_department = PyStr (dr_department r)\<rparr>"

definition Job_of_row :: "job_row \<Rightarrow> Job" where
  "Job_of_row r = \<lparr>j_id = PyInt (jr_id r), j_job = PyStr (jr_job r)\<rparr>"

definition Employee_of_row :: "employee_row \<Rightarrow> Employee" where
  "Employee_of_row r =
     \<lparr>e_id = PyInt (er_id r), e_name = PyStr (er_name r),
      e_hire_datetime = PyDatetime (er_hire_datetime r),
      e_department_id = PyInt (er_department_id r), e_job_id = PyInt (er_job_id r)\<rparr>"

text \<open>
  The constructor of a table class takes keyword arguments: a keyword that names a field
  sets it, any other keyword is dropped, and a field that no keyword names stays \<open>None\<close>.
\<close>

definition kwarg :: "(string \<times> pyval) list \<Rightarrow> string \<Rightarrow> pyval" where
  "kwarg kw k = (case map_of kw k of Some v \<Rightarrow> v | None \<Rightarrow> PyNone)"

definition Department_init :: "(string \<times> pyval) list \<Rightarrow> Department" where
  "Department_init kw = \<lparr>d_id = kwarg kw ''id'', d_department = kwarg kw ''department''\<rparr>"

definition Job_init :: "(string \<times> pyval) list \<Rightarrow> Job" where
  "Job_init kw = \<lparr>j_id = kwarg kw ''id'', j_job = kwarg kw ''job''\<rparr>"

definition Employee_init :: "(string \<times> pyval) list \<Rightarrow> Employee" where
  "Employee_init kw =
     \<lparr>e_id = kwarg kw ''id'', e_name = kwarg kw ''name'',
      e_hire_datetime = kwarg kw ''hire_datetime'',
      e_department_id = kwarg kw ''department_id'', e_job_id = kwarg kw ''job_id''\<rparr>"

section \<open>The writes of the store\<close>

text \<open>
  \<open>session.add\<close> followed by \<open>session.commit\<close> sends one INSERT. The store draws a
  missing primary key from the sequence, reads every value as its column's type, and
  checks the primary key and the foreign keys. When it refuses, the tables are as before
  (this is the state after \<open>session.rollback\<close>); a drawn sequence value is not given back.
\<close>

definition insert_department :: "store \<Rightarrow> Department \<Rightarrow> (exn + department_row) \<times> store" where
  "insert_department s x =
     (let s1 = (if d_id x = PyNone then s\<lparr>departments_id_seq := departments_id_seq s + 1\<rparr> else s);
          idv = (if d_id x = PyNone then PyInt (departments_id_seq s1) else d_id x)
      in case integer_col ''id'' idv of
           Inl e \<Rightarrow> (Inl e, s1)
         | Inr i \<Rightarrow>
            (case varchar_col ''department'' (d_department x) of
               Inl e \<Rightarrow> (Inl e, s1)
             | Inr t \<Rightarrow>
                 if i \<in> set (map dr_id (departments s1))
                 then (Inl (IntegrityError ''duplicate key value violates unique constraint departments_pkey''), s1)
                 else (Inr \<lparr>dr_id = i, dr_department = t\<rparr>,
                       s1\<lparr>departments := departments s1 @ [\<lparr>dr_id = i, dr_department = t\<rparr>]\<rparr>)))"

definition insert_job :: "store \<Rightarrow> Job \<Rightarrow> (exn + job_row) \<times> store" where
  "insert_job s x =
     (let s1 = (if j_id x = PyNone then s\<lparr>jobs_id_seq := jobs_id_seq s + 1\<rparr> else s);
          idv = (if j_id x = PyNone then PyInt (jobs_id_seq s1) else j_id x)
      in case integer_col ''id'' idv of
           Inl e \<Rightarrow> (Inl e, s1)
         | Inr i \<Rightarrow>
            (case varchar_col ''job'' (j_job x) of
               Inl e \<Rightarrow> (Inl e, s1)
             | Inr t \<Rightarrow>
                 if i \<in> set (map jr_id (jobs s1))
                 then (Inl (IntegrityError ''duplicate key value violates unique constraint jobs_pkey''), s1)
                 else (Inr \<lparr>jr_id = i, jr_job = t\<rparr>,
                       s1\<lparr>jobs := jobs s1 @ [\<lparr>jr_id = i, jr_job = t\<rparr>]\<rparr>)))"

text \<open>The columns of an employee, read from the object; the first refusal is the error.\<close>

definition employee_columns :: "pyval \<Rightarrow> Employee \<Rightarrow> exn + employee_row" where
  "employee_columns idv x =
     (case integer_col ''id'' idv of Inl e \<Rightarrow> Inl e | Inr i \<Rightarrow>
      case varchar_col ''name'' (e_name x) of Inl e \<Rightarrow> Inl e | Inr n \<Rightarrow>
      case timestamp_col ''hire_datetime'' (e_hire_datetime x) of Inl e \<Rightarrow> Inl e | Inr h \<Rightarrow>
      case integer_col ''department_id'' (e_department_id x) of Inl e \<Rightarrow> Inl e | Inr d \<Rightarrow>
      case integer_col ''job_id'' (e_job_id x) of Inl e \<Rightarrow> Inl e | Inr j \<Rightarrow>
        Inr \<lparr>er_id = i, er_name = n, er_hire_datetime = h, er_department_id = d, er_job_id = j\<rparr>)"

definition employee_foreign_keys :: "store \<Rightarrow> employee_row \<Rightarrow> exn option" where
  "employee_foreign_keys s r =
     (if er_department_id r \<notin> set (map dr_id (departments s))
      then Some (IntegrityError ''insert or update on table employees violates foreign key constraint employees_department_id_fkey'')
      else if er_job_id r \<notin> set (map jr_id (jobs s))
      then Some (IntegrityError ''insert or update on table employees violates foreign key constraint employees_job_id_fkey'')
      else None)"

definition insert_employee :: "store \<Rightarrow> Employee \<Rightarrow> (exn + employee_row) \<times> store" where
  "insert_employee s x =
     (let s1 = (if e_id x = PyNone then s\<lparr>employees_id_seq := employees_id_seq s + 1\<rparr> else s);
          idv = (if e_id x = PyNone then PyInt (employees_id_seq s1) else e_id x)
      in case employee_columns idv x of
           Inl e \<Rightarrow> (Inl e, s1)
         | Inr r \<Rightarrow>
             if er_id r \<in> set (map er_id (employees s1))
             then (Inl (IntegrityError ''duplicate key value violates unique constraint employees_pkey''), s1)
             else (case employee_foreign_keys s1 r of
                     Some e \<Rightarrow> (Inl e, s1)
                   | None \<Rightarrow> (Inr r, s1\<lparr>employees := employees s1 @ [r]\<rparr>)))"

text \<open>
  The UPDATE of the row whose key is \<open>old\<close>, from the patched object. A department or a
  job that employees refer to cannot change its key.
\<close>

definition update_department_row :: "store \<Rightarrow> int \<Rightarrow> Department \<Rightarrow> exn + department_row \<times> store" where
  "update_department_row s old x =
     (case integer_col ''id'' (d_id x) of Inl e \<Rightarrow> Inl e | Inr i \<Rightarrow>
      case varchar_col ''department'' (d_department x) of Inl e \<Rightarrow> Inl e | Inr t \<Rightarrow>
        if i \<noteq> old \<and> i \<in> set (map dr_id (departments s))
        then Inl (IntegrityError ''duplicate key value violates unique constraint departments_pkey'')
        else if i \<noteq> old \<and> old \<in> set (map er_department_id (employees s))
        then Inl (IntegrityError ''update or delete on table departments violates foreign key constraint employees_department_id_fkey'')
        else Inr (\<lparr>dr_id = i, dr_department = t\<rparr>,
                  s\<lparr>departments := map (\<lambda>r. if dr_id r = old then \<lparr>dr_id = i, dr_department = t\<rparr> else r)
                                        (departments s)\<rparr>))"

definition update_job_row :: "store \<Rightarrow> int \<Rightarrow> Job \<Rightarrow> exn + job_row \<times> store" where
  "update_job_row s old x =
     (case integer_col ''id'' (j_id x) of Inl e \<Rightarrow> Inl e | Inr i \<Rightarrow>
      case varchar_col ''job'' (j_job x) of Inl e \<Rightarrow> Inl e | Inr t \<Rightarrow>
        if i \<noteq> old \<and> i \<in> set (map jr_id (jobs s))
        then Inl (IntegrityError ''duplicate key value violates unique constraint jobs_pkey'')
        else if i \<noteq> old \<and> old \<in> set (map er_job_id (employees s))
        then Inl (IntegrityError ''update or delete on table jobs violates foreign key constraint employees_job_id_fkey'')
        else Inr (\<lparr>jr_id = i, jr_job = t\<rparr>,
                  s\<lparr>jobs := map (\<lambda>r. if jr_id r = old then \<lparr>jr_id = i, jr_job = t\<rparr> else r) (jobs s)\<rparr>))"

definition update_employee_row :: "store \<Rightarrow> int \<Rightarrow> Employee \<Rightarrow> exn + employee_row \<times> store" where
  "update_employee_row s old x =
     (case employee_columns (e_id x) x of Inl e \<Rightarrow> Inl e | Inr r \<Rightarrow>
        if er_id r \<noteq> old \<and> er_id r \<in> set (map er_id (employees s))
        then Inl (IntegrityError ''duplicate key value violates unique constraint employees_pkey'')
        else (case employee_foreign_keys s r of
                Some e \<Rightarrow> Inl e
              | None \<Rightarrow> Inr (r, s\<lparr>employees := map (\<lambda>r0. if er_id r0 = old then r else r0) (employees s)\<rparr>)))"

text \<open>The DELETE of the row whose key is \<open>i\<close>; a row that employees refer to stays.\<close>

definition delete_department_row :: "store \<Rightarrow> int \<Rightarrow> exn + store" where
  "delete_department_row s i =
     (if i \<in> set (map er_department_id (employees s))
      then Inl (IntegrityError ''update or delete on table departments violates foreign key constraint employees_department_id_fkey'')
      else Inr (s\<lparr>departments := filter (\<lambda>r. dr_id r \<noteq> i) (departments s)\<rparr>))"

definition delete_job_row :: "store \<Rightarrow> int \<Rightarrow> exn + store" where
  "delete_job_row s i =
     (if i \<in> set (map er_job_id (employees s))
      then Inl (IntegrityError ''update or delete on table jobs violates foreign key constraint employees_job_id_fkey'')
      else Inr (s\<lparr>jobs := filter (\<lambda>r. jr_id r \<noteq> i) (jobs s)\<rparr>))"

definition delete_employee_row :: "store \<Rightarrow> int \<Rightarrow> exn + store" where
  "delete_employee_row s i = Inr (s\<lparr>employees := filter (\<lambda>r. er_id r \<noteq> i) (employees s)\<rparr>)"

text \<open>\<open>session.get(Model, id)\<close>: the object of the row with that key, or \<open>None\<close>.\<close>

definition session_get_department :: "store \<Rightarrow> int \<Rightarrow> Department option" where
  "session_get_department s i = map_option Department_of_row (find (\<lambda>r. dr_id r = i) (departments s))"

definition session_get_job :: "store \<Rightarrow> int \<Rightarrow> Job option" where
  "session_get_job s i = map_option Job_of_row (find (\<lambda>r. jr_id r = i) (jobs s))"

definition session_get_employee :: "store \<Rightarrow> int \<Rightarrow> Employee option" where
  "session_get_employee s i = map_option Employee_of_row (find (\<lambda>r. er_id r = i) (employees s))"

text \<open>
  \<open>model_dump(exclude_unset=True)\<close> (and its older name \<open>dict\<close>) lists the fields that
  were set, in the order of the class. A field that was not set reads as \<open>None\<close>, and a
  payload is taken to set no field to \<open>None\<close>, so the set fields are those that are not
  \<open>None\<close>. \<open>setattr\<close> on a table object refuses a name that is not a field.
\<close>

definition model_dump_department :: "Department \<Rightarrow> (string \<times> pyval) list" where
  "model_dump_department x =
     filter (\<lambda>kv. snd kv \<noteq> PyNone) [(''id'', d_id x), (''department'', d_department x)]"

definition model_dump_job :: "Job \<Rightarrow> (string \<times> pyval) list" where
  "model_dump_job x = filter (\<lambda>kv. snd kv \<noteq> PyNone) [(''id'', j_id x), (''job'', j_job x)]"

definition model_dump_employee :: "Employee \<Rightarrow> (string \<times> pyval) list" where
  "model_dump_employee x =
     filter (\<lambda>kv. snd kv \<noteq> PyNone)
       [(''id'', e_id x), (''name'', e_name x), (''hire_datetime'', e_hire_datetime x),
        (''department_id'', e_department_id x), (''job_id'', e_job_id x)]"

definition setattr_department :: "Department \<Rightarrow> string \<times> pyval \<Rightarrow> exn + Department" where
  "setattr_department x kv =
     (if fst kv = ''id'' then Inr (x\<lparr>d_id := snd kv\<rparr>)
      else if fst kv = ''department'' then Inr (x\<lparr>d_department := snd kv\<rparr>)
      else Inl (ValueError (''Department object has no field '' @ fst kv)))"

definition setattr_job :: "Job \<Rightarrow> string \<times> pyval \<Rightarrow> exn + Job" where
  "setattr_job x kv =
     (if fst kv = ''id'' then Inr (x\<lparr>j_id := snd kv\<rparr>)
      else if fst kv = ''job'' then Inr (x\<lparr>j_job := snd kv\<rparr>)
      else Inl (ValueError (''Job object has no field '' @ fst kv)))"

definition setattr_employee :: "Employee \<Rightarrow> string \<times> pyval \<Rightarrow> exn + Employee" where
  "setattr_employee x kv =
     (if fst kv = ''id'' then Inr (x\<lparr>e_id := snd kv\<rparr>)
      else if fst kv = ''name'' then Inr (x\<lparr>e_name := snd kv\<rparr>)
      else if fst kv = ''hire_datetime'' then Inr (x\<lparr>e_hire_datetime := snd kv\<rparr>)
      else if fst kv = ''department_id'' then Inr (x\<lparr>e_department_id := snd kv\<rparr>)
      else if fst kv = ''job_id'' then Inr (x\<lparr>e_job_id := snd kv\<rparr>)
      else Inl (ValueError (''Employee object has no field '' @ fst kv)))"

text \<open>The loop \<open>for key, value in items: setattr(existing, key, value)\<close>.\<close>

fun setattrs :: "('a \<Rightarrow> string \<times> pyval \<Rightarrow> exn + 'a) \<Rightarrow> 'a \<Rightarrow> (string \<times> pyval) list \<Rightarrow> exn + 'a" where
  "setattrs f x [] = Inr x"
| "setattrs f x (kv # kvs) = (case f x kv of Inl e \<Rightarrow> Inl e | Inr x' \<Rightarrow> setattrs f x' kvs)"

section \<open>The services\<close>

text \<open>
  Each method takes the store and returns its result, \<open>Inl\<close> for a raised exception,
  with the store it leaves. A reference that Python tests with \<open>not\<close> is an option:
  \<open>None\<close> is false and an instance of a model class is true, so \<open>if not x\<close> is the
  \<open>None\<close> case.
\<close>

subsection \<open>\<open>services/department_service.py\<close>\<close>

definition create_department :: "store \<Rightarrow> Department \<Rightarrow> (exn + Department) \<times> store" where
  "create_department s department =
     (case insert_department s department of
        (Inr r, s') \<Rightarrow> (Inr (Department_of_row r), s')
      | (Inl e, s') \<Rightarrow> (Inl (DatabaseOperationError (''Error creating department: '' @ str_exn e)), s'))"

definition get_by_id_department :: "store \<Rightarrow> int \<Rightarrow> exn + Department option" where
  "get_by_id_department s department_id =
     (case session_get_department s department_id of
        None \<Rightarrow> Inl (ResourceNotFoundError (''Department with ID '' @ str_int department_id @ '' not found''))
      | Some department \<Rightarrow> Inr (Some department))"

text \<open>In \<open>update\<close> the fetch is inside the \<open>try\<close>: what it raises is caught and wrapped.\<close>

definition update_department :: "store \<Rightarrow> int \<Rightarrow> Department \<Rightarrow> (exn + Department) \<times> store" where
  "update_department s department_id department_update =
     (case (case get_by_id_department s department_id of
              Inl e \<Rightarrow> Inl e
            | Inr None \<Rightarrow> Inl (AttributeError ''NoneType object has no attribute'')
            | Inr (Some existing_department) \<Rightarrow>
                (case setattrs setattr_department existing_department
                        (model_dump_department department_update) of
                   Inl e \<Rightarrow> Inl e
                 | Inr x \<Rightarrow> update_department_row s department_id x)) of
        Inl e \<Rightarrow> (Inl (DatabaseOperationError (''Error updating department: '' @ str_exn e)), s)
      | Inr (r, s') \<Rightarrow> (Inr (Department_of_row r), s'))"

text \<open>In \<open>delete\<close> the fetch is before the \<open>try\<close>.\<close>

definition delete_department :: "store \<Rightarrow> int \<Rightarrow> (exn + unit) \<times> store" where
  "delete_department s department_id =
     (case get_by_id_department s department_id of
        Inl e \<Rightarrow> (Inl e, s)
      | Inr None \<Rightarrow>
          (Inl (ResourceNotFoundError (''Department with ID '' @ str_int department_id @ '' not found'')), s)
      | Inr (Some department) \<Rightarrow>
          (case delete_department_row s department_id of
             Inl e \<Rightarrow> (Inl (DatabaseOperationError (''Error deleting department: '' @ str_exn e)), s)
           | Inr s' \<Rightarrow> (Inr (), s')))"

subsection \<open>\<open>services/job_service.py\<close>\<close>

definition create_job :: "store \<Rightarrow> Job \<Rightarrow> (exn + Job) \<times> store" where
  "create_job s job =
     (case insert_job s job of
        (Inr r, s') \<Rightarrow> (Inr (Job_of_row r), s')
      | (Inl e, s') \<Rightarrow> (Inl (DatabaseOperationError (''Error creating job: '' @ str_exn e)), s'))"

definition get_by_id_job :: "store \<Rightarrow> int \<Rightarrow> exn + Job option" where
  "get_by_id_job s job_id =
     (case session_get_job s job_id of
        None \<Rightarrow> Inl (ResourceNotFoundError (''Job with ID '' @ str_int job_id @ '' not found''))
      | Some job \<Rightarrow> Inr (Some job))"

text \<open>
  In \<open>update\<close> the fetch is before the \<open>try\<close>, and \<open>if not existing_job: return None\<close>
  follows it: the result is an option.
\<close>

definition update_job :: "store \<Rightarrow> int \<Rightarrow> Job \<Rightarrow> (exn + Job option) \<times> store" where
  "update_job s job_id job_update =
     (case get_by_id_job s job_id of
        Inl e \<Rightarrow> (Inl e, s)
      | Inr None \<Rightarrow> (Inr None, s)
      | Inr (Some existing_job) \<Rightarrow>
          (case (case setattrs setattr_job existing_job (model_dump_job job_update) of
                   Inl e \<Rightarrow> Inl e
                 | Inr x \<Rightarrow> update_job_row s job_id x) of
             Inl e \<Rightarrow> (Inl (DatabaseOperationError (''Error updating job: '' @ str_exn e)), s)
           | Inr (r, s') \<Rightarrow> (Inr (Some (Job_of_row r)), s')))"

text \<open>In \<open>delete\<close> the fetch is inside the \<open>try\<close>.\<close>

definition delete_job :: "store \<Rightarrow> int \<Rightarrow> (exn + unit) \<times> store" where
  "delete_job s job_id =
     (case (case get_by_id_job s job_id of
              Inl e \<Rightarrow> Inl e
            | Inr None \<Rightarrow> Inl (UnmappedInstanceError ''Class NoneType is not mapped'')
            | Inr (Some job) \<Rightarrow> delete_job_row s job_id) of
        Inl e \<Rightarrow> (Inl (DatabaseOperationError (''Error deleting job: '' @ str_exn e)), s)
      | Inr s' \<Rightarrow> (Inr (), s'))"

subsection \<open>\<open>services/employee_service.py\<close>\<close>

definition create_employee :: "store \<Rightarrow> Employee \<Rightarrow> (exn + Employee) \<times> store" where
  "create_employee s employee =
     (case insert_employee s employee of
        (Inr r, s') \<Rightarrow> (Inr (Employee_of_row r), s')
      | (Inl e, s') \<Rightarrow> (Inl (DatabaseOperationError (''Error creating employee: '' @ str_exn e)), s'))"

definition get_by_id_employee :: "store \<Rightarrow> int \<Rightarrow> exn + Employee option" where
  "get_by_id_employee s employee_id =
     (case session_get_employee s employee_id of
        None \<Rightarrow> Inl (ResourceNotFoundError (''Employee with ID '' @ str_int employee_id @ '' not found''))
      | Some employee \<Rightarrow> Inr (Some employee))"

definition update_employee :: "store \<Rightarrow> int \<Rightarrow> Employee \<Rightarrow> (exn + Employee option) \<times> store" where
  "update_employee s employee_id employee_update =
     (case get_by_id_employee s employee_id of
        Inl e \<Rightarrow> (Inl e, s)
      | Inr None \<Rightarrow> (Inr None, s)
      | Inr (Some existing_employee) \<Rightarrow>
          (case (case setattrs setattr_employee existing_employee
                        (model_dump_employee employee_update) of
                   Inl e \<Rightarrow> Inl e
                 | Inr x \<Rightarrow> update_employee_row s employee_id x) of
             Inl e \<Rightarrow> (Inl (DatabaseOperationError (''Error updating employee: '' @ str_exn e)), s)
           | Inr (r, s') \<Rightarrow> (Inr (Some (Employee_of_row r)), s')))"

definition delete_employee :: "store \<Rightarrow> int \<Rightarrow> (exn + unit) \<times> store" where
  "delete_employee s employee_id =
     (case (case get_by_id_employee s employee_id of
              Inl e \<Rightarrow> Inl e
            | Inr None \<Rightarrow> Inl (UnmappedInstanceError ''Class NoneType is not mapped'')
            | Inr (Some employee) \<Rightarrow> delete_employee_row s employee_id) of
        Inl e \<Rightarrow> (Inl (DatabaseOperationError (''Error deleting employee: '' @ str_exn e)), s)
      | Inr s' \<Rightarrow> (Inr (), s'))"

subsection \<open>The hiring report\<close>

text \<open>
  \<open>get_hired_by_quarter\<close> first builds its statement. It calls \<open>quarter()\<close> and
  \<open>year()\<close> on the column \<open>hire_datetime\<close> and \<open>count()\<close> on the column \<open>id\<close>. A
  column offers the operators listed in \<open>column_operators\<close>; any other name raises
  \<open>AttributeError\<close>, which the \<open>except\<close> of the method wraps.
\<close>

definition column_operators :: "string list" where
  "column_operators =
     [''label'', ''cast'', ''asc'', ''desc'', ''nulls_first'', ''nulls_last'', ''distinct'',
      ''between'', ''in_'', ''not_in'', ''is_'', ''is_not'', ''like'', ''ilike'', ''not_like'',
      ''not_ilike'', ''startswith'', ''endswith'', ''contains'', ''match'', ''concat'',
      ''collate'', ''op'', ''any_'', ''all_'']"

definition quoted :: "string \<Rightarrow> string" where
  "quoted x = [CHR 0x27] @ x @ [CHR 0x27]"

definition col_method :: "string \<Rightarrow> string \<Rightarrow> exn + unit" where
  "col_method c m =
     (if m \<in> set column_operators then Inr ()
      else Inl (AttributeError
             (''Neither '' @ quoted ''InstrumentedAttribute'' @ '' object nor '' @ quoted ''Comparator''
              @ '' object associated with '' @ c @ '' has an attribute '' @ quoted m)))"

text \<open>
  The arguments of \<open>select\<close> are evaluated in order, then the argument of \<open>where\<close>.
\<close>

definition build_statement :: "exn + unit" where
  "build_statement =
     (case col_method ''Employee.hire_datetime'' ''quarter'' of Inl e \<Rightarrow> Inl e | Inr _ \<Rightarrow>
      case col_method ''Employee.id'' ''count'' of Inl e \<Rightarrow> Inl e | Inr _ \<Rightarrow>
        col_method ''Employee.hire_datetime'' ''year'')"

text \<open>
  The rows that the statement asks for, clause by clause: WHERE on the year of
  \<open>hire_datetime\<close>, GROUP BY department, job and quarter with COUNT of \<open>id\<close> (a primary
  key, never null, so every row of a group counts), ORDER BY the same three columns.
  A result row is (department_id, job_id, quarter, hired_count).
\<close>

definition extract_year :: "datetime \<Rightarrow> int" where
  "extract_year t = year t"

definition extract_quarter :: "datetime \<Rightarrow> int" where
  "extract_quarter t = (int (month t) - 1) div 3 + 1"

definition group_columns :: "employee_row \<Rightarrow> int \<times> int \<times> int" where
  "group_columns e = (er_department_id e, er_job_id e, extract_quarter (er_hire_datetime e))"

fun count_into :: "'k \<Rightarrow> ('k \<times> int) list \<Rightarrow> ('k \<times> int) list" where
  "count_into k [] = [(k, 1)]"
| "count_into k ((k', c) # g) = (if k = k' then (k', c + 1) # g else (k', c) # count_into k g)"

definition group_by_count :: "'k list \<Rightarrow> ('k \<times> int) list" where
  "group_by_count ks = foldl (\<lambda>g k. count_into k g) [] ks"

definition order_by :: "((int \<times> int \<times> int) \<times> int) list \<Rightarrow> ((int \<times> int \<times> int) \<times> int) list" where
  "order_by g = sort_key fst g"

definition statement_rows :: "store \<Rightarrow> int \<Rightarrow> (int \<times> int \<times> int \<times> int) list" where
  "statement_rows s y =
     map (\<lambda>((d, j, q), c). (d, j, q, c))
       (order_by (group_by_count
          (map group_columns
             (filter (\<lambda>e. extract_year (er_hire_datetime e) = y) (employees s)))))"

definition get_hired_by_quarter :: "store \<Rightarrow> int \<Rightarrow> exn + (int \<times> int \<times> int \<times> int) list" where
  "get_hired_by_quarter s y =
     (case build_statement of
        Inl e \<Rightarrow> Inl (DatabaseOperationError (''Error retrieving hiring statistics: '' @ str_exn e))
      | Inr _ \<Rightarrow> Inr (statement_rows s y))"

section \<open>The CSV routes\<close>

text \<open>
  Reading the upload and splitting it into cells is the environment's part: the routes
  take its outcome, \<open>Inl\<close> when the upload cannot be read or parsed, else the lines, each
  a list of cells given as the value the store reads there, one cell per name.
  \<open>read_csv\<close> with \<open>names\<close> labels the cells of a line; \<open>row[k]\<close> raises
  \<open>KeyError\<close> for a label the row lacks.
\<close>

definition read_csv :: "string list \<Rightarrow> pyval list list \<Rightarrow> (string \<times> pyval) list list" where
  "read_csv names lines = map (zip names) lines"

definition row_get :: "(string \<times> pyval) list \<Rightarrow> string \<Rightarrow> exn + pyval" where
  "row_get row k = (case map_of row k of None \<Rightarrow> Inl (KeyError k) | Some v \<Rightarrow> Inr v)"

text \<open>
  The loop \<open>for _, row in df.iterrows()\<close>: \<open>step\<close> is the guarded body (build the object,
  call \<open>create\<close>), whose exception the inner \<open>except\<close> counts; the two counters are the
  accumulators.
\<close>

fun import_rows ::
  "('r \<Rightarrow> store \<Rightarrow> (exn + 'a) \<times> store) \<Rightarrow> 'r list \<Rightarrow> store \<Rightarrow> int \<Rightarrow> int \<Rightarrow> store \<times> int \<times> int" where
  "import_rows step [] s successful_imports failed_imports = (s, successful_imports, failed_imports)"
| "import_rows step (row # rows) s successful_imports failed_imports =
     (case step row s of
        (Inr _, s') \<Rightarrow> import_rows step rows s' (successful_imports + 1) failed_imports
      | (Inl _, s') \<Rightarrow> import_rows step rows s' successful_imports (failed_imports + 1))"

definition department_step :: "(string \<times> pyval) list \<Rightarrow> store \<Rightarrow> (exn + Department) \<times> store" where
  "department_step row s =
     (case row_get row ''id'' of Inl e \<Rightarrow> (Inl e, s) | Inr a \<Rightarrow>
      case row_get row ''department'' of Inl e \<Rightarrow> (Inl e, s) | Inr b \<Rightarrow>
        create_department s (Department_init [(''id'', a), (''department'', b)]))"

definition job_step :: "(string \<times> pyval) list \<Rightarrow> store \<Rightarrow> (exn + Job) \<times> store" where
  "job_step row s =
     (case row_get row ''id'' of Inl e \<Rightarrow> (Inl e, s) | Inr a \<Rightarrow>
      case row_get row ''job'' of Inl e \<Rightarrow> (Inl e, s) | Inr b \<Rightarrow>
        create_job s (Job_init [(''id'', a), (''job'', b)]))"

definition employee_step :: "(string \<times> pyval) list \<Rightarrow> store \<Rightarrow> (exn + Employee) \<times> store" where
  "employee_step row s =
     (case row_get row ''id'' of Inl e \<Rightarrow> (Inl e, s) | Inr a \<Rightarrow>
      case row_get row ''name'' of Inl e \<Rightarrow> (Inl e, s) | Inr b \<Rightarrow>
      case row_get row ''datetime'' of Inl e \<Rightarrow> (Inl e, s) | Inr c \<Rightarrow>
      case row_get row ''department_id'' of Inl e \<Rightarrow> (Inl e, s) | Inr d \<Rightarrow>
      case row_get row ''job_id'' of Inl e \<Rightarrow> (Inl e, s) | Inr j \<Rightarrow>
        create_employee s
          (Employee_init [(''id'', a), (''name'', b), (''datetime'', c),
                          (''department_id'', d), (''job_id'', j)]))"

text \<open>
  The body shared by the three routes. \<open>closing\<close> is the store's answer to the
  \<open>session.commit()\<close> after the loop: \<open>None\<close> when it goes through, else what it raises.
  The outer \<open>except\<close> rolls the session back, which undoes no write that \<open>create\<close> has
  already committed, and raises \<open>HTTPException\<close> with status 500.
\<close>

definition upload_csv ::
  "string list \<Rightarrow> ((string \<times> pyval) list \<Rightarrow> store \<Rightarrow> (exn + 'a) \<times> store) \<Rightarrow>
   store \<Rightarrow> exn + pyval list list \<Rightarrow> exn option \<Rightarrow> (exn + (string \<times> string) list) \<times> store" where
  "upload_csv names step s contents closing =
     (case contents of
        Inl e \<Rightarrow> (Inl (HTTPException 500 (str_exn e)), s)
      | Inr lines \<Rightarrow>
          (case import_rows step (read_csv names lines) s 0 0 of
             (s', successful_imports, failed_imports) \<Rightarrow>
               (case closing of
                  Some e \<Rightarrow> (Inl (HTTPException 500 (str_exn e)), s')
                | None \<Rightarrow>
                    (Inr [(''status'', ''success''),
                          (''successful_imports'', str_int successful_imports),
                          (''failed_imports'', str_int failed_imports)], s'))))"

definition upload_department_csv ::
  "store \<Rightarrow> exn + pyval list list \<Rightarrow> exn option \<Rightarrow> (exn + (string \<times> string) list) \<times> store" where
  "upload_department_csv = upload_csv [''id'', ''department''] department_step"

definition upload_job_csv ::
  "store \<Rightarrow> exn + pyval list list \<Rightarrow> exn option \<Rightarrow> (exn + (string \<times> string) list) \<times> store" where
  "upload_job_csv = upload_csv [''id'', ''job''] job_step"

definition upload_employee_csv ::
  "store \<Rightarrow> exn + pyval list list \<Rightarrow> exn option \<Rightarrow> (exn + (string \<times> string) list) \<times> store" where
  "upload_employee_csv =
     upload_csv [''id'', ''name'', ''datetime'', ''department_id'', ''job_id''] employee_step"

section \<open>Reference definitions and sample stores\<close>

text \<open>
  \<open>same_tables\<close> compares the three collections of two stores. \<open>patched\<close> is the
  merge of one field: the payload's value when it was set, the previous one otherwise.
\<close>

definition same_tables :: "store \<Rightarrow> store \<Rightarrow> bool" where
  "same_tables s s' = (departments s' = departments s \<and> jobs s' = jobs s \<and> employees s' = employees s)"

definition patched :: "pyval \<Rightarrow> pyval \<Rightarrow> pyval" where
  "patched old new = (if new = PyNone then old else new)"

text \<open>
  The report as the specification words it: keep the employees hired in the year, put
  each in the group of its department, its job and its quarter (months 1 to 3 are quarter
  1, 4 to 6 quarter 2, 7 to 9 quarter 3, 10 to 12 quarter 4), list the groups that occur in
  ascending order and count the kept employees of each.
\<close>

definition spec_quarter :: "nat \<Rightarrow> int" where
  "spec_quarter m = (if m \<le> 3 then 1 else if m \<le> 6 then 2 else if m \<le> 9 then 3 else 4)"

definition spec_group :: "employee_row \<Rightarrow> int \<times> int \<times> int" where
  "spec_group e = (er_department_id e, er_job_id e, spec_quarter (month (er_hire_datetime e)))"

definition hires_by_quarter_spec :: "employee_row list \<Rightarrow> int \<Rightarrow> (int \<times> int \<times> int \<times> int) list" where
  "hires_by_quarter_spec es y =
     (let kept = filter (\<lambda>e. year (er_hire_datetime e) = y) es
      in map (\<lambda>(d, j, q). (d, j, q, int (length (filter (\<lambda>e. spec_group e = (d, j, q)) kept))))
           (sorted_list_of_set (set (map spec_group kept))))"

text \<open>Sample stores for the worked examples.\<close>

definition empty_store :: store where
  "empty_store = \<lparr>departments = [], jobs = [], employees = [],
                   departments_id_seq = 0, jobs_id_seq = 0, employees_id_seq = 0\<rparr>"

definition store_1 :: store where
  "store_1 = \<lparr>departments = [\<lparr>dr_id = 1, dr_department = ''Sales''\<rparr>],
               jobs = [\<lparr>jr_id = 1, jr_job = ''Engineer''\<rparr>],
               employees = [],
               departments_id_seq = 0, jobs_id_seq = 0, employees_id_seq = 0\<rparr>"

definition store_3 :: store where
  "store_3 = \<lparr>departments = [\<lparr>dr_id = 1, dr_department = ''Sales''\<rparr>],
               jobs = [\<lparr>jr_id = 1, jr_job = ''Engineer''\<rparr>],
               employees =
                 [\<lparr>er_id = 1, er_name = ''Ann'',
                   er_hire_datetime = \<lparr>year = 2021, month = 2, day = 1, hour = 0, minute = 0, second = 0\<rparr>,
                   er_department_id = 1, er_job_id = 1\<rparr>,
                  \<lparr>er_id = 2, er_name = ''Bob'',
                   er_hire_datetime = \<lparr>year = 2021, month = 5, day = 1, hour = 0, minute = 0, second = 0\<rparr>,
                   er_department_id = 1, er_job_id = 1\<rparr>,
                  \<lparr>er_id = 3, er_name = ''Cy'',
                   er_hire_datetime = \<lparr>year = 2021, month = 2, day = 15, hour = 0, minute = 0, second = 0\<rparr>,
                   er_department_id = 1, er_job_id = 1\<rparr>],
               departments_id_seq = 0, jobs_id_seq = 0, employees_id_seq = 0\<rparr>"

definition store_A :: store where
  "store_A = snd (create_job empty_store \<lparr>j_id = PyInt 1, j_job = PyStr ''A''\<rparr>)"

definition store_2 :: store where
  "store_2 = store_1\<lparr>employees :=
     [\<lparr>er_id = 1, er_name = ''John'',
       er_hire_datetime = \<lparr>year = 2021, month = 2, day = 1, hour = 0, minute = 0, second = 0\<rparr>,
       er_department_id = 1, er_job_id = 1\<rparr>]\<rparr>"

section \<open>Basic facts\<close>

lemma str_int_0: "str_int 0 = ''0''"
  by (simp add: str_int_def str_nat.simps digit_char_def)

lemma str_int_1: "str_int 1 = ''1''"
  by (simp add: str_int_def str_nat.simps digit_char_def)

lemma str_int_42: "str_int 42 = ''42''"
  by (simp add: str_int_def str_nat.simps digit_char_def)

lemma integer_col_Inr: "integer_col c v = Inr i \<longleftrightarrow> v = PyInt i"
  by (cases v) auto

lemma varchar_col_Inr: "varchar_col c v = Inr t \<longleftrightarrow> v = PyStr t"
  by (cases v) auto

lemma timestamp_col_Inr: "timestamp_col c v = Inr t \<longleftrightarrow> v = PyDatetime t"
  by (cases v) auto


section \<open>Reading and writing single records\<close>

subsection \<open>An id that is absent\<close>

text \<open>
  \<open>get_by_id\<close> never returns \<open>None\<close>: it raises \<open>ResourceNotFoundError\<close> or returns a
  record. Where the fetch is outside the guarded block, \<open>update\<close> and \<open>delete\<close> pass
  that exception on.
\<close>

lemma get_by_id_returns_record:
  "get_by_id_employee s i \<noteq> Inr None" "get_by_id_job s i \<noteq> Inr None" "get_by_id_department s i \<noteq> Inr None"
  by (auto simp: get_by_id_employee_def get_by_id_job_def get_by_id_department_def split: option.splits)

lemma missing_id_not_found:
  "session_get_employee s i = None \<Longrightarrow> \<exists>m. get_by_id_employee s i = Inl (ResourceNotFoundError m)"
  "session_get_job s i = None \<Longrightarrow> \<exists>m. get_by_id_job s i = Inl (ResourceNotFoundError m)"
  "session_get_department s i = None \<Longrightarrow> \<exists>m. get_by_id_department s i = Inl (ResourceNotFoundError m)"
  "session_get_employee s i = None \<Longrightarrow> \<exists>m. update_employee s i u = (Inl (ResourceNotFoundError m), s)"
  "session_get_job s i = None \<Longrightarrow> \<exists>m. update_job s i v = (Inl (ResourceNotFoundError m), s)"
  "session_get_department s i = None \<Longrightarrow> \<exists>m. delete_department s i = (Inl (ResourceNotFoundError m), s)"
  by (simp_all add: get_by_id_employee_def get_by_id_job_def get_by_id_department_def
        update_employee_def update_job_def delete_department_def)

text \<open>
  Claim C7: for an id with no row, \<open>get_by_id\<close>, \<open>update\<close> and \<open>delete\<close> of every
  repository raise \<open>ResourceNotFoundError\<close>. The code departs from it in three methods
  whose fetch is inside the guarded block: on the empty store, \<open>delete\<close> of the employee
  and of the job service and \<open>update\<close> of the department service raise
  \<open>DatabaseOperationError\<close>, with the not-found message wrapped in it.
\<close>

theorem missing_id_wrapped:
  "delete_employee empty_store 42 =
     (Inl (DatabaseOperationError ''Error deleting employee: Employee with ID 42 not found''), empty_store) \<and>
   delete_job empty_store 42 =
     (Inl (DatabaseOperationError ''Error deleting job: Job with ID 42 not found''), empty_store) \<and>
   update_department empty_store 42 \<lparr>d_id = PyNone, d_department = PyStr ''Sales''\<rparr> =
     (Inl (DatabaseOperationError ''Error updating department: Department with ID 42 not found''), empty_store)"
  by (simp add: delete_employee_def delete_job_def update_department_def get_by_id_employee_def
        get_by_id_job_def get_by_id_department_def session_get_employee_def session_get_job_def
        session_get_department_def empty_store_def str_int_42)

text \<open>
  Claim C10: \<open>update\<close> of the employee and of the job service never returns \<open>None\<close>;
  for every store, id and payload it raises or returns the updated record.
\<close>

theorem update_never_returns_None:
  "((\<exists>e. fst (update_employee s i u) = Inl e) \<or> (\<exists>r. fst (update_employee s i u) = Inr (Some r))) \<and>
   ((\<exists>e. fst (update_job s k v) = Inl e) \<or> (\<exists>r. fst (update_job s k v) = Inr (Some r)))"
  by (auto simp: update_employee_def update_job_def get_by_id_employee_def get_by_id_job_def
           split: option.splits sum.splits prod.splits)

subsection \<open>A write that the store refuses\<close>

lemma insert_department_refused:
  "insert_department s x = (Inl e, s') \<Longrightarrow> same_tables s s'"
  by (auto simp: insert_department_def same_tables_def Let_def split: sum.splits if_splits)

lemma insert_job_refused:
  "insert_job s x = (Inl e, s') \<Longrightarrow> same_tables s s'"
  by (auto simp: insert_job_def same_tables_def Let_def split: sum.splits if_splits)

lemma insert_employee_refused:
  "insert_employee s x = (Inl e, s') \<Longrightarrow> same_tables s s'"
  by (auto simp: insert_employee_def same_tables_def Let_def split: sum.splits if_splits option.splits)

text \<open>
  Claim C6: when the store refuses the write of \<open>create\<close> with an error \<open>e\<close> (a
  duplicate id, an invalid foreign key, a null or ill-typed value), \<open>create\<close> raises
  \<open>DatabaseOperationError\<close> whose message ends with the text of \<open>e\<close>, and the three
  collections are as before the call. This holds in each of the three repositories.
\<close>

theorem create_failure_wrapped:
  "(insert_department s1 d = (Inl e1, t1) \<longrightarrow>
      create_department s1 d =
        (Inl (DatabaseOperationError (''Error creating department: '' @ str_exn e1)), t1)
      \<and> same_tables s1 t1) \<and>
   (insert_job s2 j = (Inl e2, t2) \<longrightarrow>
      create_job s2 j = (Inl (DatabaseOperationError (''Error creating job: '' @ str_exn e2)), t2)
      \<and> same_tables s2 t2) \<and>
   (insert_employee s3 x = (Inl e3, t3) \<longrightarrow>
      create_employee s3 x =
        (Inl (DatabaseOperationError (''Error creating employee: '' @ str_exn e3)), t3)
      \<and> same_tables s3 t3)"
  using insert_department_refused [of s1 d e1 t1] insert_job_refused [of s2 j e2 t2]
    insert_employee_refused [of s3 x e3 t3]
  by (simp add: create_department_def create_job_def create_employee_def)

theorem create_failure_wrapped_witness:
  "insert_department store_1 \<lparr>d_id = PyInt 1, d_department = PyStr ''Ops''\<rparr> =
     (Inl (IntegrityError ''duplicate key value violates unique constraint departments_pkey''), store_1) \<and>
   create_department store_1 \<lparr>d_id = PyInt 1, d_department = PyStr ''Ops''\<rparr> =
     (Inl (DatabaseOperationError
        ''Error creating department: duplicate key value violates unique constraint departments_pkey''),
      store_1) \<and>
   insert_job store_1 \<lparr>j_id = PyInt 1, j_job = PyStr ''Clerk''\<rparr> =
     (Inl (IntegrityError ''duplicate key value violates unique constraint jobs_pkey''), store_1) \<and>
   create_job store_1 \<lparr>j_id = PyInt 1, j_job = PyStr ''Clerk''\<rparr> =
     (Inl (DatabaseOperationError
        ''Error creating job: duplicate key value violates unique constraint jobs_pkey''),
      store_1) \<and>
   insert_employee store_2
      \<lparr>e_id = PyInt 1, e_name = PyStr ''Jane'', e_hire_datetime = PyNone,
       e_department_id = PyInt 1, e_job_id = PyInt 1\<rparr> =
     (Inl (IntegrityError ''null value in column hire_datetime''), store_2) \<and>
   create_employee store_2
      \<lparr>e_id = PyInt 1, e_name = PyStr ''Jane'', e_hire_datetime = PyNone,
       e_department_id = PyInt 1, e_job_id = PyInt 1\<rparr> =
     (Inl (DatabaseOperationError ''Error creating employee: null value in column hire_datetime''),
      store_2) \<and>
   same_tables store_1 store_1 \<and> same_tables store_2 store_2"
proof -
  have h1: "insert_department store_1 \<lparr>d_id = PyInt 1, d_department = PyStr ''Ops''\<rparr> =
     (Inl (IntegrityError ''duplicate key value violates unique constraint departments_pkey''), store_1)"
    by (simp add: insert_department_def store_1_def)
  have h2: "insert_job store_1 \<lparr>j_id = PyInt 1, j_job = PyStr ''Clerk''\<rparr> =
     (Inl (IntegrityError ''duplicate key value violates unique constraint jobs_pkey''), store_1)"
    by (simp add: insert_job_def store_1_def)
  have h3: "insert_employee store_2
      \<lparr>e_id = PyInt 1, e_name = PyStr ''Jane'', e_hire_datetime = PyNone,
       e_department_id = PyInt 1, e_job_id = PyInt 1\<rparr> =
     (Inl (IntegrityError ''null value in column hire_datetime''), store_2)"
    by (simp add: insert_employee_def employee_columns_def store_2_def store_1_def)
  from h1 h2 h3
    create_failure_wrapped [of store_1 "\<lparr>d_id = PyInt 1, d_department = PyStr ''Ops''\<rparr>" _ store_1
      store_1 "\<lparr>j_id = PyInt 1, j_job = PyStr ''Clerk''\<rparr>" _ store_1
      store_2 "\<lparr>e_id = PyInt 1, e_name = PyStr ''Jane'', e_hire_datetime = PyNone,
                e_department_id = PyInt 1, e_job_id = PyInt 1\<rparr>" _ store_2]
  show ?thesis by simp
qed

lemma employee_columns_Inr:
  "employee_columns idv x = Inr r \<Longrightarrow>
     e_department_id x = PyInt (er_department_id r) \<and> e_job_id x = PyInt (er_job_id r)"
  by (auto simp: employee_columns_def integer_col_Inr split: sum.splits)

text \<open>
  Claim C9: an employee whose \<open>department_id\<close> is the id of no department, or whose
  \<open>job_id\<close> is the id of no job, is refused: \<open>create\<close> raises
  \<open>DatabaseOperationError\<close> and the collections are unchanged.
\<close>

theorem employee_references_checked:
  assumes "(\<forall>d \<in> set (departments s). e_department_id x \<noteq> PyInt (dr_id d)) \<or>
           (\<forall>j \<in> set (jobs s). e_job_id x \<noteq> PyInt (jr_id j))"
  shows "(\<exists>m. fst (create_employee s x) = Inl (DatabaseOperationError m)) \<and>
         same_tables s (snd (create_employee s x))"
proof -
  obtain res s' where ins: "insert_employee s x = (res, s')"
    by (cases "insert_employee s x")
  have "\<exists>e. res = Inl e"
  proof (cases res)
    case (Inl e)
    then show ?thesis by simp
  next
    case (Inr r)
    with ins assms show ?thesis
      by (auto simp: insert_employee_def Let_def employee_foreign_keys_def
               split: sum.splits if_splits option.splits dest!: employee_columns_Inr)
  qed
  then obtain e where e: "res = Inl e" by blast
  with ins insert_employee_refused [of s x e s'] show ?thesis
    by (simp add: create_employee_def)
qed

theorem employee_references_checked_witness:
  "create_employee store_1
      \<lparr>e_id = PyInt 1, e_name = PyStr ''John'',
       e_hire_datetime = PyDatetime \<lparr>year = 2021, month = 2, day = 1, hour = 0, minute = 0, second = 0\<rparr>,
       e_department_id = PyInt 7, e_job_id = PyInt 1\<rparr> =
     (Inl (DatabaseOperationError
        ''Error creating employee: insert or update on table employees violates foreign key constraint employees_department_id_fkey''),
      store_1) \<and>
   (\<exists>m. fst (create_employee store_1
      \<lparr>e_id = PyInt 1, e_name = PyStr ''John'',
       e_hire_datetime = PyDatetime \<lparr>year = 2021, month = 2, day = 1, hour = 0, minute = 0, second = 0\<rparr>,
       e_department_id = PyInt 7, e_job_id = PyInt 1\<rparr>) = Inl (DatabaseOperationError m))"
proof -
  let ?x = "\<lparr>e_id = PyInt 1, e_name = PyStr ''John'',
       e_hire_datetime = PyDatetime \<lparr>year = 2021, month = 2, day = 1, hour = 0, minute = 0, second = 0\<rparr>,
       e_department_id = PyInt 7, e_job_id = PyInt 1\<rparr>"
  have h: "(\<forall>d \<in> set (departments store_1). e_department_id ?x \<noteq> PyInt (dr_id d)) \<or>
           (\<forall>j \<in> set (jobs store_1). e_job_id ?x \<noteq> PyInt (jr_id j))"
    by (simp add: store_1_def)
  have c: "create_employee store_1 ?x =
     (Inl (DatabaseOperationError
        ''Error creating employee: insert or update on table employees violates foreign key constraint employees_department_id_fkey''),
      store_1)"
    by (simp add: create_employee_def insert_employee_def employee_columns_def
          employee_foreign_keys_def store_1_def)
  from employee_references_checked [OF h] h c show ?thesis by simp
qed

subsection \<open>Updating a record\<close>

lemma setattrs_department:
  "setattrs setattr_department old (model_dump_department u) =
     Inr \<lparr>d_id = patched (d_id old) (d_id u), d_department = patched (d_department old) (d_department u)\<rparr>"
  by (cases old) (simp add: model_dump_department_def setattr_department_def patched_def)

lemma setattrs_job:
  "setattrs setattr_job old (model_dump_job u) =
     Inr \<lparr>j_id = patched (j_id old) (j_id u), j_job = patched (j_job old) (j_job u)\<rparr>"
  by (cases old) (simp add: model_dump_job_def setattr_job_def patched_def)

lemma setattrs_employee:
  "setattrs setattr_employee old (model_dump_employee u) =
     Inr \<lparr>e_id = patched (e_id old) (e_id u), e_name = patched (e_name old) (e_name u),
          e_hire_datetime = patched (e_hire_datetime old) (e_hire_datetime u),
          e_department_id = patched (e_department_id old) (e_department_id u),
          e_job_id = patched (e_job_id old) (e_job_id u)\<rparr>"
  by (cases old) (simp add: model_dump_employee_def setattr_employee_def patched_def)

lemma find_replaced:
  "find (\<lambda>x. key x = old) rows = Some r0 \<Longrightarrow> key r = k \<Longrightarrow> k = old \<or> k \<notin> set (map key rows) \<Longrightarrow>
   find (\<lambda>x. key x = k) (map (\<lambda>x. if key x = old then r else x) rows) = Some r"
  by (induction rows) (auto split: if_splits)

lemma update_job_merge:
  assumes "update_job s i u = (Inr (Some r), s')"
  shows "\<exists>old k. session_get_job s i = Some old \<and>
           r = \<lparr>j_id = patched (j_id old) (j_id u), j_job = patched (j_job old) (j_job u)\<rparr> \<and>
           j_id r = PyInt k \<and> session_get_job s' k = Some r"
proof -
  from assms obtain old where old: "session_get_job s i = Some old"
    by (auto simp: update_job_def get_by_id_job_def split: option.splits)
  then obtain r0 where r0: "find (\<lambda>x. jr_id x = i) (jobs s) = Some r0"
    by (auto simp: session_get_job_def)
  let ?x = "\<lparr>j_id = patched (j_id old) (j_id u), j_job = patched (j_job old) (j_job u)\<rparr>"
  from assms old obtain row where row: "update_job_row s i ?x = Inr (row, s')" and r: "r = Job_of_row row"
    by (auto simp: update_job_def get_by_id_job_def setattrs_job split: sum.splits)
  from row have x: "?x = Job_of_row row"
    by (auto simp: update_job_row_def Job_of_row_def integer_col_Inr varchar_col_Inr
             split: sum.splits if_splits)
  from row have s': "jobs s' = map (\<lambda>x. if jr_id x = i then row else x) (jobs s)"
    and k: "jr_id row = i \<or> jr_id row \<notin> set (map jr_id (jobs s))"
    by (auto simp: update_job_row_def split: sum.splits if_splits)
  have "find (\<lambda>x. jr_id x = jr_id row) (jobs s') = Some row"
    unfolding s' using find_replaced [OF r0 refl k] .
  then have "session_get_job s' (jr_id row) = Some r"
    by (simp add: session_get_job_def r)
  with old r x show ?thesis
    by (auto simp: Job_of_row_def)
qed

lemma update_department_merge:
  assumes "update_department s i u = (Inr r, s')"
  shows "\<exists>old k. session_get_department s i = Some old \<and>
           r = \<lparr>d_id = patched (d_id old) (d_id u),
                d_department = patched (d_department old) (d_department u)\<rparr> \<and>
           d_id r = PyInt k \<and> session_get_department s' k = Some r"
proof -
  from assms obtain old where old: "session_get_department s i = Some old"
    by (auto simp: update_department_def get_by_id_department_def split: option.splits)
  then obtain r0 where r0: "find (\<lambda>x. dr_id x = i) (departments s) = Some r0"
    by (auto simp: session_get_department_def)
  let ?x = "\<lparr>d_id = patched (d_id old) (d_id u),
             d_department = patched (d_department old) (d_department u)\<rparr>"
  from assms old obtain row where row: "update_department_row s i ?x = Inr (row, s')"
    and r: "r = Department_of_row row"
    by (auto simp: update_department_def get_by_id_department_def setattrs_department split: sum.splits)
  from row have x: "?x = Department_of_row row"
    by (auto simp: update_department_row_def Department_of_row_def integer_col_Inr varchar_col_Inr
             split: sum.splits if_splits)
  from row have s': "departments s' = map (\<lambda>x. if dr_id x = i then row else x) (departments s)"
    and k: "dr_id row = i \<or> dr_id row \<notin> set (map dr_id (departments s))"
    by (auto simp: update_department_row_def split: sum.splits if_splits)
  have "find (\<lambda>x. dr_id x = dr_id row) (departments s') = Some row"
    unfolding s' using find_replaced [OF r0 refl k] .
  then have "session_get_department s' (dr_id row) = Some r"
    by (simp add: session_get_department_def r)
  with old r x show ?thesis
    by (auto simp: Department_of_row_def)
qed

lemma employee_columns_object:
  "employee_columns (e_id x) x = Inr row \<Longrightarrow> x = Employee_of_row row"
  by (cases x)
     (auto simp: employee_columns_def Employee_of_row_def integer_col_Inr varchar_col_Inr
                 timestamp_col_Inr split: sum.splits)

lemma update_employee_merge:
  assumes "update_employee s i u = (Inr (Some r), s')"
  shows "\<exists>old k. session_get_employee s i = Some old \<and>
           r = \<lparr>e_id = patched (e_id old) (e_id u), e_name = patched (e_name old) (e_name u),
                e_hire_datetime = patched (e_hire_datetime old) (e_hire_datetime u),
                e_department_id = patched (e_department_id old) (e_department_id u),
                e_job_id = patched (e_job_id old) (e_job_id u)\<rparr> \<and>
           e_id r = PyInt k \<and> session_get_employee s' k = Some r"
proof -
  from assms obtain old where old: "session_get_employee s i = Some old"
    by (auto simp: update_employee_def get_by_id_employee_def split: option.splits)
  then obtain r0 where r0: "find (\<lambda>x. er_id x = i) (employees s) = Some r0"
    by (auto simp: session_get_employee_def)
  let ?x = "\<lparr>e_id = patched (e_id old) (e_id u), e_name = patched (e_name old) (e_name u),
             e_hire_datetime = patched (e_hire_datetime old) (e_hire_datetime u),
             e_department_id = patched (e_department_id old) (e_department_id u),
             e_job_id = patched (e_job_id old) (e_job_id u)\<rparr>"
  from assms old obtain row where row: "update_employee_row s i ?x = Inr (row, s')"
    and r: "r = Employee_of_row row"
    by (auto simp: update_employee_def get_by_id_employee_def setattrs_employee split: sum.splits)
  from row have cols: "employee_columns (e_id ?x) ?x = Inr row"
    by (auto simp: update_employee_row_def split: sum.splits if_splits option.splits)
  have x: "?x = Employee_of_row row"
    using employee_columns_object [OF cols] .
  from row have s': "employees s' = map (\<lambda>x. if er_id x = i then row else x) (employees s)"
    and k: "er_id row = i \<or> er_id row \<notin> set (map er_id (employees s))"
    by (auto simp: update_employee_row_def split: sum.splits if_splits option.splits)
  have "find (\<lambda>x. er_id x = er_id row) (employees s') = Some row"
    unfolding s' using find_replaced [OF r0 refl k] .
  then have "session_get_employee s' (er_id row) = Some r"
    by (simp add: session_get_employee_def r)
  with old r x show ?thesis
    by (auto simp: Employee_of_row_def)
qed

text \<open>
  Claim C8: \<open>update\<close> is a merge-patch. When it returns a record, that record is the
  stored one with exactly the fields that the payload set overwritten and every other
  field as it was, and reading the record's id from the resulting store gives that record.
  This holds for the job, the employee and the department repository.
\<close>

theorem update_is_merge_patch:
  "(update_job s1 i1 u1 = (Inr (Some r1), t1) \<longrightarrow>
      (\<exists>old k. session_get_job s1 i1 = Some old \<and>
         r1 = \<lparr>j_id = patched (j_id old) (j_id u1), j_job = patched (j_job old) (j_job u1)\<rparr> \<and>
         j_id r1 = PyInt k \<and> session_get_job t1 k = Some r1)) \<and>
   (update_employee s2 i2 u2 = (Inr (Some r2), t2) \<longrightarrow>
      (\<exists>old k. session_get_employee s2 i2 = Some old \<and>
         r2 = \<lparr>e_id = patched (e_id old) (e_id u2), e_name = patched (e_name old) (e_name u2),
               e_hire_datetime = patched (e_hire_datetime old) (e_hire_datetime u2),
               e_department_id = patched (e_department_id old) (e_department_id u2),
               e_job_id = patched (e_job_id old) (e_job_id u2)\<rparr> \<and>
         e_id r2 = PyInt k \<and> session_get_employee t2 k = Some r2)) \<and>
   (update_department s3 i3 u3 = (Inr r3, t3) \<longrightarrow>
      (\<exists>old k. session_get_department s3 i3 = Some old \<and>
         r3 = \<lparr>d_id = patched (d_id old) (d_id u3),
               d_department = patched (d_department old) (d_department u3)\<rparr> \<and>
         d_id r3 = PyInt k \<and> session_get_department t3 k = Some r3))"
  using update_job_merge [of s1 i1 u1 r1 t1] update_employee_merge [of s2 i2 u2 r2 t2]
    update_department_merge [of s3 i3 u3 r3 t3]
  by blast

text \<open>
  The example of the specification: create Job 1 with title A, update it with only the
  title B set, read it back. The same for the name of an employee and of a department.
\<close>

theorem update_is_merge_patch_witness:
  "update_job store_A 1 \<lparr>j_id = PyNone, j_job = PyStr ''B''\<rparr> =
     (Inr (Some \<lparr>j_id = PyInt 1, j_job = PyStr ''B''\<rparr>),
      store_A\<lparr>jobs := [\<lparr>jr_id = 1, jr_job = ''B''\<rparr>]\<rparr>) \<and>
   get_by_id_job (store_A\<lparr>jobs := [\<lparr>jr_id = 1, jr_job = ''B''\<rparr>]\<rparr>) 1 =
     Inr (Some \<lparr>j_id = PyInt 1, j_job = PyStr ''B''\<rparr>) \<and>
   update_employee store_2 1
      \<lparr>e_id = PyNone, e_name = PyStr ''Jane'', e_hire_datetime = PyNone,
       e_department_id = PyNone, e_job_id = PyNone\<rparr> =
     (Inr (Some \<lparr>e_id = PyInt 1, e_name = PyStr ''Jane'',
                 e_hire_datetime = PyDatetime
                   \<lparr>year = 2021, month = 2, day = 1, hour = 0, minute = 0, second = 0\<rparr>,
                 e_department_id = PyInt 1, e_job_id = PyInt 1\<rparr>),
      store_2\<lparr>employees :=
        [\<lparr>er_id = 1, er_name = ''Jane'',
          er_hire_datetime = \<lparr>year = 2021, month = 2, day = 1, hour = 0, minute = 0, second = 0\<rparr>,
          er_department_id = 1, er_job_id = 1\<rparr>]\<rparr>) \<and>
   update_department store_1 1 \<lparr>d_id = PyNone, d_department = PyStr ''Ops''\<rparr> =
     (Inr \<lparr>d_id = PyInt 1, d_department = PyStr ''Ops''\<rparr>,
      store_1\<lparr>departments := [\<lparr>dr_id = 1, dr_department = ''Ops''\<rparr>]\<rparr>) \<and>
   (\<exists>old k. session_get_job store_A 1 = Some old \<and> j_id old = PyInt k \<and> j_job old = PyStr ''A'') \<and>
   (\<exists>old. session_get_employee store_2 1 = Some old \<and> e_job_id old = PyInt 1) \<and>
   (\<exists>old. session_get_department store_1 1 = Some old \<and> d_id old = PyInt 1)"
proof -
  let ?tA = "store_A\<lparr>jobs := [\<lparr>jr_id = 1, jr_job = ''B''\<rparr>]\<rparr>"
  let ?t2 = "store_2\<lparr>employees :=
        [\<lparr>er_id = 1, er_name = ''Jane'',
          er_hire_datetime = \<lparr>year = 2021, month = 2, day = 1, hour = 0, minute = 0, second = 0\<rparr>,
          er_department_id = 1, er_job_id = 1\<rparr>]\<rparr>"
  let ?t1 = "store_1\<lparr>departments := [\<lparr>dr_id = 1, dr_department = ''Ops''\<rparr>]\<rparr>"
  have A: "store_A = empty_store\<lparr>jobs := [\<lparr>jr_id = 1, jr_job = ''A''\<rparr>]\<rparr>"
    by (simp add: store_A_def create_job_def insert_job_def empty_store_def)
  have h1: "update_job store_A 1 \<lparr>j_id = PyNone, j_job = PyStr ''B''\<rparr> =
     (Inr (Some \<lparr>j_id = PyInt 1, j_job = PyStr ''B''\<rparr>), ?tA)"
    by (simp add: A update_job_def get_by_id_job_def session_get_job_def Job_of_row_def
          model_dump_job_def setattr_job_def update_job_row_def empty_store_def)
  have g1: "get_by_id_job ?tA 1 = Inr (Some \<lparr>j_id = PyInt 1, j_job = PyStr ''B''\<rparr>)"
    by (simp add: get_by_id_job_def session_get_job_def Job_of_row_def)
  have h2: "update_employee store_2 1
      \<lparr>e_id = PyNone, e_name = PyStr ''Jane'', e_hire_datetime = PyNone,
       e_department_id = PyNone, e_job_id = PyNone\<rparr> =
     (Inr (Some \<lparr>e_id = PyInt 1, e_name = PyStr ''Jane'',
                 e_hire_datetime = PyDatetime
                   \<lparr>year = 2021, month = 2, day = 1, hour = 0, minute = 0, second = 0\<rparr>,
                 e_department_id = PyInt 1, e_job_id = PyInt 1\<rparr>), ?t2)"
    by (simp add: update_employee_def get_by_id_employee_def session_get_employee_def
          Employee_of_row_def model_dump_employee_def setattr_employee_def
          update_employee_row_def employee_columns_def employee_foreign_keys_def
          store_2_def store_1_def)
  have h3: "update_department store_1 1 \<lparr>d_id = PyNone, d_department = PyStr ''Ops''\<rparr> =
     (Inr \<lparr>d_id = PyInt 1, d_department = PyStr ''Ops''\<rparr>, ?t1)"
    by (simp add: update_department_def get_by_id_department_def session_get_department_def
          Department_of_row_def model_dump_department_def setattr_department_def
          update_department_row_def store_1_def)
  from update_is_merge_patch
    [of store_A 1 "\<lparr>j_id = PyNone, j_job = PyStr ''B''\<rparr>" "\<lparr>j_id = PyInt 1, j_job = PyStr ''B''\<rparr>" ?tA
        store_2 1 "\<lparr>e_id = PyNone, e_name = PyStr ''Jane'', e_hire_datetime = PyNone,
                   e_department_id = PyNone, e_job_id = PyNone\<rparr>"
        "\<lparr>e_id = PyInt 1, e_name = PyStr ''Jane'',
          e_hire_datetime = PyDatetime
            \<lparr>year = 2021, month = 2, day = 1, hour = 0, minute = 0, second = 0\<rparr>,
          e_department_id = PyInt 1, e_job_id = PyInt 1\<rparr>" ?t2
        store_1 1 "\<lparr>d_id = PyNone, d_department = PyStr ''Ops''\<rparr>"
        "\<lparr>d_id = PyInt 1, d_department = PyStr ''Ops''\<rparr>" ?t1]
    h1 h2 h3
  have c: "(\<exists>old k. session_get_job store_A 1 = Some old \<and>
              \<lparr>j_id = PyInt 1, j_job = PyStr ''B''\<rparr> =
                \<lparr>j_id = patched (j_id old) PyNone, j_job = patched (j_job old) (PyStr ''B'')\<rparr>) \<and>
           (\<exists>old. session_get_employee store_2 1 = Some old \<and>
              PyInt 1 = patched (e_job_id old) PyNone) \<and>
           (\<exists>old. session_get_department store_1 1 = Some old \<and>
              PyInt 1 = patched (d_id old) PyNone)"
    by auto
  have "session_get_job store_A 1 = Some \<lparr>j_id = PyInt 1, j_job = PyStr ''A''\<rparr>"
    by (simp add: A session_get_job_def Job_of_row_def empty_store_def)
  with c h1 h2 h3 g1 show ?thesis
    by (auto simp: patched_def)
qed

section \<open>The bulk import\<close>

lemma import_rows_counts:
  "import_rows step rows s ok bad = (s', ok', bad') \<Longrightarrow>
     ok' + bad' = ok + bad + int (length rows) \<and> ok \<le> ok' \<and> bad \<le> bad'"
proof (induction rows arbitrary: s ok bad)
  case Nil
  then show ?case by simp
next
  case (Cons row rows)
  obtain res s1 where st: "step row s = (res, s1)" by (cases "step row s")
  show ?case
  proof (cases res)
    case (Inl e)
    with st Cons.prems have "import_rows step rows s1 ok (bad + 1) = (s', ok', bad')" by simp
    from Cons.IH [OF this] show ?thesis by simp
  next
    case (Inr v)
    with st Cons.prems have "import_rows step rows s1 (ok + 1) bad = (s', ok', bad')" by simp
    from Cons.IH [OF this] show ?thesis by simp
  qed
qed


lemma upload_csv_report:
  "\<exists>N M s'. upload_csv names step s (Inr lines) None =
       (Inr [(''status'', ''success''), (''successful_imports'', str_int N),
             (''failed_imports'', str_int M)], s') \<and>
     N + M = int (length lines) \<and> 0 \<le> N \<and> 0 \<le> M"
proof -
  obtain s' N M where run: "import_rows step (read_csv names lines) s 0 0 = (s', N, M)"
    by (cases "import_rows step (read_csv names lines) s 0 0")
  from import_rows_counts [OF run] have "N + M = int (length lines) \<and> 0 \<le> N \<and> 0 \<le> M"
    by (simp add: read_csv_def)
  with run show ?thesis
    by (intro exI [of _ N] exI [of _ M] exI [of _ s']) (simp add: upload_csv_def)
qed



text \<open>
  Claim C5: for every sequence of parsed lines, each route answers with the three
  entries \<open>status = success\<close>, \<open>successful_imports\<close> and \<open>failed_imports\<close>, the two
  counts as the text of integers \<open>N\<close> and \<open>M\<close> that are not negative and add up to the
  number of lines: every line adds one to exactly one of the two counters.
\<close>

theorem import_report_counts:
  "(\<exists>N M s'. upload_department_csv s (Inr lines) None =
       (Inr [(''status'', ''success''), (''successful_imports'', str_int N),
             (''failed_imports'', str_int M)], s') \<and>
     N + M = int (length lines) \<and> 0 \<le> N \<and> 0 \<le> M) \<and>
   (\<exists>N M s'. upload_job_csv s (Inr lines) None =
       (Inr [(''status'', ''success''), (''successful_imports'', str_int N),
             (''failed_imports'', str_int M)], s') \<and>
     N + M = int (length lines) \<and> 0 \<le> N \<and> 0 \<le> M) \<and>
   (\<exists>N M s'. upload_employee_csv s (Inr lines) None =
       (Inr [(''status'', ''success''), (''successful_imports'', str_int N),
             (''failed_imports'', str_int M)], s') \<and>
     N + M = int (length lines) \<and> 0 \<le> N \<and> 0 \<le> M)"
  unfolding upload_department_csv_def upload_job_csv_def upload_employee_csv_def
  using upload_csv_report [of "[''id'', ''department'']" department_step s lines]
    upload_csv_report [of "[''id'', ''job'']" job_step s lines]
    upload_csv_report [of "[''id'', ''name'', ''datetime'', ''department_id'', ''job_id'']"
      employee_step s lines]
  by simp

text \<open>
  Claim C4, as amended: when the upload cannot be read or parsed, no row is processed,
  the store is as before and the route raises \<open>HTTPException\<close> with status 500; when
  the commit after the loop fails, the route raises the same way and the store is the one
  the loop left, with every row that \<open>create\<close> had committed.
\<close>

theorem fatal_import_error:
  "upload_department_csv s (Inl e) closing = (Inl (HTTPException 500 (str_exn e)), s) \<and>
   upload_job_csv s (Inl e) closing = (Inl (HTTPException 500 (str_exn e)), s) \<and>
   upload_employee_csv s (Inl e) closing = (Inl (HTTPException 500 (str_exn e)), s) \<and>
   upload_department_csv s (Inr lines) (Some e) =
     (Inl (HTTPException 500 (str_exn e)),
      fst (import_rows department_step (read_csv [''id'', ''department''] lines) s 0 0)) \<and>
   upload_job_csv s (Inr lines) (Some e) =
     (Inl (HTTPException 500 (str_exn e)),
      fst (import_rows job_step (read_csv [''id'', ''job''] lines) s 0 0)) \<and>
   upload_employee_csv s (Inr lines) (Some e) =
     (Inl (HTTPException 500 (str_exn e)),
      fst (import_rows employee_step
             (read_csv [''id'', ''name'', ''datetime'', ''department_id'', ''job_id''] lines) s 0 0))"
  by (simp add: upload_department_csv_def upload_job_csv_def upload_employee_csv_def
        upload_csv_def split: prod.splits)

text \<open>
  Claim C4 as stated (the whole batch is rolled back, no row of the request stays) fails
  when the commit after the loop fails: the request ends with status 500 and the
  department of its one line is stored.
\<close>

theorem closing_commit_failure_keeps_rows:
  "upload_department_csv empty_store (Inr [[PyInt 1, PyStr ''Sales'']])
      (Some (OperationalError ''server closed the connection unexpectedly'')) =
     (Inl (HTTPException 500 ''server closed the connection unexpectedly''),
      empty_store\<lparr>departments := [\<lparr>dr_id = 1, dr_department = ''Sales''\<rparr>]\<rparr>)"
  by (simp add: upload_department_csv_def upload_csv_def read_csv_def department_step_def
        row_get_def create_department_def insert_department_def Department_init_def kwarg_def
        empty_store_def)

text \<open>
  The employee route passes the timestamp under the keyword \<open>datetime\<close>, which is not a
  field of \<open>Employee\<close>: the object has no \<open>hire_datetime\<close>, and the NOT NULL column
  refuses it. So the guarded body fails on every row.
\<close>

lemma Employee_init_drops_datetime:
  "e_hire_datetime (Employee_init [(''id'', a), (''name'', b), (''datetime'', c),
                                   (''department_id'', d), (''job_id'', j)]) = PyNone"
  by (simp add: Employee_init_def kwarg_def)

lemma employee_step_fails: "\<exists>e. fst (employee_step row s) = Inl e"
  by (auto simp: employee_step_def create_employee_def insert_employee_def employee_columns_def
        Employee_init_def kwarg_def Let_def split: sum.splits prod.splits)

text \<open>
  Claim C3: an employee row whose fields are valid is inserted and counted as a success.
  The code departs from it: with department 1 and job 1 stored, the line
  (1, John, 2021-02-01 00:00:00, 1, 1) is counted as failed and no employee is stored.
\<close>

theorem valid_employee_row_rejected:
  "upload_employee_csv store_1
      (Inr [[PyInt 1, PyStr ''John'',
             PyDatetime \<lparr>year = 2021, month = 2, day = 1, hour = 0, minute = 0, second = 0\<rparr>,
             PyInt 1, PyInt 1]]) None =
     (Inr [(''status'', ''success''), (''successful_imports'', ''0''), (''failed_imports'', ''1'')],
      store_1)"
  by (simp add: upload_employee_csv_def upload_csv_def read_csv_def employee_step_def
        row_get_def create_employee_def insert_employee_def employee_columns_def
        Employee_init_def kwarg_def str_int_0 str_int_1 store_1_def)

section \<open>The hiring report\<close>

lemma keys_count_into: "fst ` set (count_into k g) = insert k (fst ` set g)"
  by (induction k g rule: count_into.induct) auto

lemma distinct_count_into:
  "distinct (map fst g) \<Longrightarrow> distinct (map fst (count_into k g))"
proof (induction k g rule: count_into.induct)
  case (1 k)
  then show ?case by simp
next
  case (2 k k' c g)
  show ?case
  proof (cases "k = k'")
    case True
    with 2 show ?thesis by simp
  next
    case False
    with 2 have "distinct (map fst (count_into k g))" by simp
    moreover from 2 False have "k' \<notin> fst ` set (count_into k g)"
      by (simp add: keys_count_into)
    ultimately show ?thesis using False by simp
  qed
qed

lemma map_of_count_into:
  "map_of (count_into k g) x =
     (if x = k then Some ((case map_of g k of None \<Rightarrow> 0 | Some c \<Rightarrow> c) + 1) else map_of g x)"
  by (induction k g rule: count_into.induct) auto

lemma foldl_count_into:
  "distinct (map fst g) \<Longrightarrow>
     distinct (map fst (foldl (\<lambda>g k. count_into k g) g ks)) \<and>
     (\<forall>x. map_of (foldl (\<lambda>g k. count_into k g) g ks) x =
        (if x \<in> set ks
         then Some ((case map_of g x of None \<Rightarrow> 0 | Some c \<Rightarrow> c) + int (count_list ks x))
         else map_of g x))"
proof (induction ks arbitrary: g)
  case Nil
  then show ?case by simp
next
  case (Cons k ks)
  have d: "distinct (map fst (count_into k g))"
    using Cons.prems by (rule distinct_count_into)
  from Cons.IH [OF d] show ?case
    by (auto simp: map_of_count_into)
qed

lemma group_by_count_correct:
  "distinct (map fst (group_by_count ks))"
  "map_of (group_by_count ks) x = (if x \<in> set ks then Some (int (count_list ks x)) else None)"
  using foldl_count_into [of "[]" ks] by (simp_all add: group_by_count_def)

lemma map_insort_key: "map f (insort_key f x xs) = insort (f x) (map f xs)"
  by (induction xs) auto

lemma map_sort_key: "map f (sort_key f xs) = sort (map f xs)"
  by (induction xs) (auto simp: map_insort_key)

lemma order_by_group_by_count:
  "order_by (group_by_count ks) =
     map (\<lambda>k. (k, int (count_list ks k))) (sorted_list_of_set (set ks))"
proof -
  let ?g = "group_by_count ks"
  let ?L = "order_by ?g"
  have d: "distinct (map fst ?g)" by (rule group_by_count_correct)
  have keys: "set (map fst ?g) = set ks"
  proof -
    have "x \<in> fst ` set ?g \<longleftrightarrow> x \<in> set ks" for x
      using map_of_eq_None_iff [of ?g x] group_by_count_correct(2) [of ks x]
      by (auto split: if_splits)
    then show ?thesis by auto
  qed
  have "map fst ?L = sort (map fst ?g)"
    by (simp add: order_by_def map_sort_key)
  also have "\<dots> = sort (remdups (map fst ?g))"
    using d by (simp add: distinct_remdups_id)
  also have "\<dots> = sorted_list_of_set (set (map fst ?g))"
    by (simp only: sorted_list_of_set_sort_remdups)
  finally have fstL: "map fst ?L = sorted_list_of_set (set ks)"
    by (simp only: keys)
  have "p = (fst p, int (count_list ks (fst p)))" if "p \<in> set ?L" for p
  proof -
    from that have "p \<in> set ?g" by (simp add: order_by_def)
    then have "(fst p, snd p) \<in> set ?g" by simp
    with d have "map_of ?g (fst p) = Some (snd p)" by (simp only: map_of_eq_Some_iff)
    with group_by_count_correct(2) [of ks "fst p"] have "snd p = int (count_list ks (fst p))"
      by (simp split: if_splits)
    then show ?thesis by (metis prod.collapse)
  qed
  then have "map (\<lambda>p. (fst p, int (count_list ks (fst p)))) ?L = ?L"
    by (intro map_idI) simp
  then have "?L = map (\<lambda>k. (k, int (count_list ks k))) (map fst ?L)"
    by (simp add: comp_def)
  with fstL show ?thesis by simp
qed

lemma count_list_map: "count_list (map f xs) k = length (filter (\<lambda>x. f x = k) xs)"
  by (induction xs) auto

lemma extract_quarter_spec:
  assumes "1 \<le> month t" "month t \<le> 12"
  shows "extract_quarter t = spec_quarter (month t)"
proof -
  from assms have "month t = 1 \<or> month t = 2 \<or> month t = 3 \<or> month t = 4 \<or> month t = 5 \<or>
      month t = 6 \<or> month t = 7 \<or> month t = 8 \<or> month t = 9 \<or> month t = 10 \<or>
      month t = 11 \<or> month t = 12"
    by presburger
  then show ?thesis
    by (auto simp: extract_quarter_def spec_quarter_def)
qed

text \<open>
  The statement that the method means to run asks for the report as the specification
  words it: for a store whose hire timestamps have a month from 1 to 12 its rows are
  those groups, in strictly ascending order of (department_id, job_id, quarter), each
  counting at least one employee.
\<close>

lemma statement_rows_groups:
  assumes "\<forall>e \<in> set (employees s). 1 \<le> month (er_hire_datetime e) \<and> month (er_hire_datetime e) \<le> 12"
  shows "statement_rows s y = hires_by_quarter_spec (employees s) y \<and>
         sorted_wrt (<) (map (\<lambda>(d, j, q, c). (d, j, q)) (hires_by_quarter_spec (employees s) y)) \<and>
         (\<forall>(d, j, q, c) \<in> set (hires_by_quarter_spec (employees s) y). 1 \<le> c)"
proof -
  let ?kept = "filter (\<lambda>e. year (er_hire_datetime e) = y) (employees s)"
  let ?cnt = "\<lambda>k. int (length (filter (\<lambda>e. spec_group e = k) ?kept))"
  let ?keys = "sorted_list_of_set (set (map spec_group ?kept))"
  have spec: "hires_by_quarter_spec (employees s) y = map (\<lambda>(d, j, q). (d, j, q, ?cnt (d, j, q))) ?keys"
    by (simp add: hires_by_quarter_spec_def)
  have same: "map group_columns ?kept = map spec_group ?kept"
    using assms by (auto simp: group_columns_def spec_group_def extract_quarter_spec)
  have "order_by (group_by_count (map group_columns ?kept)) = map (\<lambda>k. (k, ?cnt k)) ?keys"
    unfolding same order_by_group_by_count by (simp add: count_list_map)
  then have code: "statement_rows s y = hires_by_quarter_spec (employees s) y"
    by (simp add: statement_rows_def extract_year_def spec comp_def case_prod_beta)
  have "map (\<lambda>(d, j, q, c). (d, j, q)) (hires_by_quarter_spec (employees s) y) = ?keys"
    unfolding spec by (simp add: comp_def case_prod_beta map_idI)
  then have sorted: "sorted_wrt (<) (map (\<lambda>(d, j, q, c). (d, j, q)) (hires_by_quarter_spec (employees s) y))"
    by (simp only: strict_sorted_list_of_set)
  have pos: "1 \<le> ?cnt k" if "k \<in> set ?keys" for k
  proof -
    from that obtain e where "e \<in> set ?kept" "spec_group e = k" by auto
    then have "e \<in> set (filter (\<lambda>e. spec_group e = k) ?kept)" by simp
    then have "filter (\<lambda>e. spec_group e = k) ?kept \<noteq> []" by (metis empty_iff empty_set)
    then have "0 < length (filter (\<lambda>e. spec_group e = k) ?kept)" by simp
    then show ?thesis by linarith
  qed
  have "1 \<le> c" if m: "(d, j, q, c) \<in> set (hires_by_quarter_spec (employees s) y)" for d j q c
  proof -
    from m obtain k where k: "k \<in> set ?keys"
      and eq: "(d, j, q, c) = (case k of (d, j, q) \<Rightarrow> (d, j, q, ?cnt (d, j, q)))"
      unfolding spec set_map by blast
    obtain d' j' q' where "k = (d', j', q')" by (cases k)
    with eq have "c = ?cnt k" by simp
    with pos [OF k] show ?thesis by simp
  qed
  then have "\<forall>(d, j, q, c) \<in> set (hires_by_quarter_spec (employees s) y). 1 \<le> c"
    by blast
  with code sorted show ?thesis by blast
qed

text \<open>
  The example of the specification: hires on 2021-02-01, 2021-05-01 and 2021-02-15 in
  department 1 and job 1.
\<close>

lemma statement_rows_example:
  "statement_rows store_3 2021 = [(1, 1, 1, 2), (1, 1, 2, 1)]" "statement_rows store_3 2022 = []"
  by (simp_all add: statement_rows_def store_3_def extract_year_def group_by_count_def
        group_columns_def extract_quarter_def order_by_def)

text \<open>But the statement is never built: the first column method that is called is refused.\<close>

lemma build_statement_raises:
  "build_statement =
     Inl (AttributeError
       (''Neither '' @ quoted ''InstrumentedAttribute'' @ '' object nor '' @ quoted ''Comparator''
        @ '' object associated with Employee.hire_datetime has an attribute '' @ quoted ''quarter''))"
  by (simp add: build_statement_def col_method_def column_operators_def)

lemma get_hired_by_quarter_always_raises:
  "\<exists>m. get_hired_by_quarter s y = Inl (DatabaseOperationError m)"
  by (simp add: get_hired_by_quarter_def build_statement_raises)

text \<open>
  Claim C2: \<open>hires_by_quarter(year)\<close> returns the groups of the employees hired in the
  year, counted and sorted. The code departs from it: on the store of the specification's
  example and the year 2021, where the claim gives the rows (1, 1, 1, 2) and (1, 1, 2, 1),
  the method raises \<open>DatabaseOperationError\<close> with the wrapped \<open>AttributeError\<close>, as it
  does for every store and year.
\<close>

theorem get_hired_by_quarter_raises:
  "get_hired_by_quarter store_3 2021 =
     Inl (DatabaseOperationError
       (''Error retrieving hiring statistics: Neither '' @ quoted ''InstrumentedAttribute''
        @ '' object nor '' @ quoted ''Comparator''
        @ '' object associated with Employee.hire_datetime has an attribute '' @ quoted ''quarter''))"
  by (simp add: get_hired_by_quarter_def build_statement_raises)

end
